theory Spec2Isabelle
  imports Complex_Main
begin

section \<open>Shared data model\<close>

text \<open>
  The routines of \<^verbatim>\<open>cortex/utils.py\<close> work on numpy arrays. A vertex position is a
  row of three floats, a triangle a row of three vertex indices. Arithmetic on finite
  floats is modelled by exact real arithmetic (rounding and overflow are left out); the
  non-finite values that numpy produces on division by zero are modelled explicitly
  where the code relies on them (type \<open>fl\<close> below).
\<close>

type_synonym vec3 = "real \<times> real \<times> real"
type_synonym tri = "nat \<times> nat \<times> nat"

datatype py_error = IndexError | KeyError | ValueError

fun tri_list :: "tri \<Rightarrow> nat list" where
  "tri_list (a, b, c) = [a, b, c]"

text \<open>Running a loop body over a list; the first exception aborts the loop.\<close>

fun sequence_results :: "('e + 'a) list \<Rightarrow> 'e + 'a list" where
  "sequence_results [] = Inr []"
| "sequence_results (x # xs) =
     (case x of
        Inl e \<Rightarrow> Inl e
      | Inr v \<Rightarrow> (case sequence_results xs of Inl e \<Rightarrow> Inl e | Inr vs \<Rightarrow> Inr (v # vs)))"

text \<open>
  A Python dictionary from vertex indices to collections of vertex indices is an
  association list in insertion order: \<open>dict_put\<close> replaces the value of a key that is
  present and appends a new key at the end; \<open>adj\<close> reads the entry of a key, empty when
  the key is absent.
\<close>

type_synonym graph = "(nat \<times> nat list) list"

fun dict_put :: "nat \<Rightarrow> nat list \<Rightarrow> graph \<Rightarrow> graph" where
  "dict_put k v [] = [(k, v)]"
| "dict_put k v (kv # d) = (if fst kv = k then (k, v) # d else kv # dict_put k v d)"

definition adj :: "graph \<Rightarrow> nat \<Rightarrow> nat list" where
  "adj g u = (case map_of g u of None \<Rightarrow> [] | Some ns \<Rightarrow> ns)"

section \<open>Curvature smoother: \<^verbatim>\<open>get_curvature\<close>\<close>

text \<open>
  \<^verbatim>\<open>
  faces = dict()
  for poly in hemi[1]:
      for pt in poly:
          if pt not in faces:
              faces[pt] = set()
          faces[pt] |= set(poly)
  \<close>
  A Python set is modelled by a duplicate-free list.
\<close>

definition set_union :: "nat list \<Rightarrow> nat list \<Rightarrow> nat list" where
  "set_union s poly = fold List.insert poly s"

definition faces_add :: "tri \<Rightarrow> graph \<Rightarrow> graph" where
  "faces_add poly fs =
     fold (\<lambda>pt f. dict_put pt (set_union (adj f pt) (tri_list poly)) f) (tri_list poly) fs"

definition faces :: "tri list \<Rightarrow> graph" where
  "faces polys = fold faces_add polys []"

text \<open>
  \<^verbatim>\<open>
  def getpts(pt, n):
      if pt in faces:
          for p in faces[pt]:
              if n == 0:
                  yield p
              else:
                  for q in getpts(p, n-1):
                      yield q
  \<close>
  The generator is modelled by the list of the values it yields. The hop count
  \<open>neighborhood\<close> is a natural number (the default is 3).
\<close>

primrec getpts :: "graph \<Rightarrow> nat \<Rightarrow> nat \<Rightarrow> nat list" where
  "getpts fs 0 pt = (case map_of fs pt of None \<Rightarrow> [] | Some ps \<Rightarrow> ps)"
| "getpts fs (Suc n) pt =
     (case map_of fs pt of None \<Rightarrow> [] | Some ps \<Rightarrow> concat (map (getpts fs n) ps))"

text \<open>
  \<^verbatim>\<open>g = np.exp(-(((hemi[0][neighbors] - pt)**2) / (2*smooth**2)).sum(1))\<close>
  for one neighbour position \<open>q\<close>.
\<close>

fun gauss :: "real \<Rightarrow> vec3 \<Rightarrow> vec3 \<Rightarrow> real" where
  "gauss smooth (px, py, pz) (qx, qy, qz) =
     exp (- ((qx - px)\<^sup>2 / (2 * smooth\<^sup>2) + (qy - py)\<^sup>2 / (2 * smooth\<^sup>2)
             + (qz - pz)\<^sup>2 / (2 * smooth\<^sup>2)))"

text \<open>
  \<^verbatim>\<open>
  neighbors = list(set(getpts(i, neighborhood)))
  if len(neighbors) > 0:
      g = np.exp(...)
      curvature[i] = (g * curv[neighbors]).mean()
  \<close>
  Indexing \<open>hemi[0]\<close> or \<open>curv\<close> with a neighbour index past the end raises IndexError.
  A vertex without neighbours keeps the 0 of \<open>np.zeros\<close>.
\<close>

definition neighbors_of :: "tri list \<Rightarrow> nat \<Rightarrow> nat \<Rightarrow> nat list" where
  "neighbors_of polys neighborhood i = remdups (getpts (faces polys) neighborhood i)"

definition smooth_vertex ::
  "vec3 list \<Rightarrow> tri list \<Rightarrow> real list \<Rightarrow> real \<Rightarrow> nat \<Rightarrow> nat \<Rightarrow> py_error + real" where
  "smooth_vertex pts polys curv smooth neighborhood i =
     (let neighbors = neighbors_of polys neighborhood i in
      if length neighbors > 0 then
        (if list_ex (\<lambda>j. length pts \<le> j) neighbors then Inl IndexError
         else if list_ex (\<lambda>j. length curv \<le> j) neighbors then Inl IndexError
         else Inr (sum_list (map (\<lambda>j. gauss smooth (pts ! i) (pts ! j) * curv ! j) neighbors)
                   / real (length neighbors)))
      else Inr 0)"

text \<open>
  One hemisphere of \<^verbatim>\<open>get_curvature\<close>. The raw curvature is computed by the external
  \<^verbatim>\<open>tvtk.Curvatures\<close> filter, which is a parameter \<open>estimator\<close> of the model.
  \<^verbatim>\<open>
  if smooth == 0:
      curvs.append(curv)
  else:
      ...
      curvs.append(curvature)
  \<close>
\<close>

definition get_curvature_hemi ::
  "(vec3 list \<Rightarrow> tri list \<Rightarrow> real list) \<Rightarrow> real \<Rightarrow> nat \<Rightarrow> vec3 list \<times> tri list
     \<Rightarrow> py_error + real list" where
  "get_curvature_hemi estimator smooth neighborhood hemi =
     (let curv = estimator (fst hemi) (snd hemi) in
      if smooth = 0 then Inr curv
      else sequence_results
             (map (smooth_vertex (fst hemi) (snd hemi) curv smooth neighborhood)
                  [0 ..< length (fst hemi)]))"

definition get_curvature ::
  "(vec3 list \<Rightarrow> tri list \<Rightarrow> real list) \<Rightarrow> (vec3 list \<times> tri list) list \<Rightarrow> real \<Rightarrow> nat
     \<Rightarrow> py_error + real list list" where
  "get_curvature estimator hemis smooth neighborhood =
     sequence_results (map (get_curvature_hemi estimator smooth neighborhood) hemis)"

section \<open>Adjacency graph: \<^verbatim>\<open>make_surface_graph\<close>\<close>

text \<open>
  \<^verbatim>\<open>
  def iter_surfedges(tris):
      for a,b,c in tris:
          yield a,b
          yield b,c
          yield a,c

  def make_surface_graph(tris):
      graph = nx.Graph()
      graph.add_edges_from(iter_surfedges(tris))
      return graph
  \<close>
  A \<^verbatim>\<open>networkx.Graph\<close> keeps a dictionary from each node to the dictionary of its
  neighbours; \<^verbatim>\<open>add_edge(u, v)\<close> enters \<open>v\<close> under \<open>u\<close> and \<open>u\<close> under \<open>v\<close>. The
  model keeps, for each node, the list of its neighbours without repetition, in the
  order in which they were entered.
\<close>

definition dict_add :: "nat \<Rightarrow> nat list \<Rightarrow> nat list" where
  "dict_add v ns = (if v \<in> set ns then ns else ns @ [v])"

definition add_edge :: "graph \<Rightarrow> nat \<times> nat \<Rightarrow> graph" where
  "add_edge g e =
     (let g1 = dict_put (fst e) (dict_add (snd e) (adj g (fst e))) g
      in dict_put (snd e) (dict_add (fst e) (adj g1 (snd e))) g1)"

fun tri_edges :: "tri \<Rightarrow> (nat \<times> nat) list" where
  "tri_edges (a, b, c) = [(a, b), (b, c), (a, c)]"

definition iter_surfedges :: "tri list \<Rightarrow> (nat \<times> nat) list" where
  "iter_surfedges tris = concat (map tri_edges tris)"

definition add_edges_from :: "graph \<Rightarrow> (nat \<times> nat) list \<Rightarrow> graph" where
  "add_edges_from g es = fold (\<lambda>e g. add_edge g e) es g"

definition make_surface_graph :: "tri list \<Rightarrow> graph" where
  "make_surface_graph tris = add_edges_from [] (iter_surfedges tris)"

section \<open>ROI voxel rasterizer: \<^verbatim>\<open>get_roi_masks\<close>\<close>

text \<open>
  \<^verbatim>\<open>roi.lower()\<close> on a Python 2 byte string: the ASCII capitals are mapped to small
  letters, every other character is kept.
\<close>

definition char_lower :: "char \<Rightarrow> char" where
  "char_lower c =
     (case map_of (zip ''ABCDEFGHIJKLMNOPQRSTUVWXYZ'' ''abcdefghijklmnopqrstuvwxyz'') c of
        None \<Rightarrow> c | Some l \<Rightarrow> l)"

definition lower :: "string \<Rightarrow> string" where
  "lower s = map char_lower s"

text \<open>
  The argument \<open>roiList\<close> is \<open>None\<close>, a single name or a list of names. What the function
  obtains from its collaborators (the ROI pack, the reference volume, the surface
  database and \<^verbatim>\<open>get_vox_dist\<close>) is collected in \<open>roi_inputs\<close>:
  \<^item> \<open>roi_names\<close>, \<open>get_roi\<close>: \<^verbatim>\<open>rois.names\<close> and \<^verbatim>\<open>rois.get_roi(name)\<close> (a name without
    an ROI raises);
  \<^item> \<open>vertIdx\<close>: the valid vertices, \<^verbatim>\<open>np.unique(polys)\<close> of the merged flat mesh;
  \<^item> \<open>ref_shape\<close>: the shape of the reference volume as stored;
  \<^item> \<open>n_coords\<close>: the number of rows of \<^verbatim>\<open>np.vstack(surfs.getCoords(...))\<close>;
  \<^item> \<open>voxDst\<close>, \<open>voxIdx\<close>: the flattened results of \<^verbatim>\<open>get_vox_dist\<close>;
  \<^item> \<open>L_pts\<close>, \<open>L_polys\<close>: points and triangles of the left flat hemisphere, \<open>L[0]\<close> and
    \<open>L[1]\<close>.
\<close>

datatype roi_arg = RoiNone | RoiStr string | RoiList "string list"

record roi_inputs =
  roi_names :: "string list"
  get_roi :: "string \<rightharpoonup> nat list"
  vertIdx :: "nat list"
  ref_shape :: "nat list"
  n_coords :: nat
  voxDst :: "real list"
  voxIdx :: "nat list"
  L_pts :: "vec3 list"
  L_polys :: "tri list"

record roi_result =
  mask_data :: "int list"
  mask_shape :: "nat list"
  roiIdx :: "(string \<times> int) list"

text \<open>
  \<^verbatim>\<open>
  shape = nibabel.load(...).shape[::-1]
  if len(shape) > 3:
      shape = shape[1:]
  \<close>
\<close>

definition grid_shape :: "nat list \<Rightarrow> nat list" where
  "grid_shape s = (let shape = rev s in if length shape > 3 then tl shape else shape)"

text \<open>
  \<^verbatim>\<open>
  nL = len(np.unique(L[1]))
  Lmask = (voxIdx < nL).flatten()
  Rmask = np.logical_not(Lmask)
  CxMask = (voxDst < Dst).flatten()
  \<close>
\<close>

definition count_unique :: "tri list \<Rightarrow> nat" where
  "count_unique polys = length (remdups (concat (map tri_list polys)))"

definition Lmask :: "roi_inputs \<Rightarrow> bool list" where
  "Lmask inp = map (\<lambda>i. i < count_unique (L_polys inp)) (voxIdx inp)"

definition Rmask :: "roi_inputs \<Rightarrow> bool list" where
  "Rmask inp = map Not (Lmask inp)"

definition CxMask :: "roi_inputs \<Rightarrow> real \<Rightarrow> bool list" where
  "CxMask inp Dst = map (\<lambda>d. d < Dst) (voxDst inp)"

text \<open>
  The candidate voxels \<open>roiIdxB3\<close> of one ROI.
  \<^verbatim>\<open>
  if roi.lower()=='cortex':
      roiIdxB3 = np.ones(Lmask.shape)>0
  else:
      roiIdxB1 = np.zeros((nValidVerts,),np.bool)
      roiIdxS1 = rois.get_roi(roi)
      roiIdxB1[roiIdxS1] = True
      roiIdxB2 = np.zeros((nVerts,),np.bool)
      roiIdxB2[vertIdx] = roiIdxB1
      roiIdxS2 = np.nonzero(roiIdxB2)[0]
      roiIdxB3 = np.in1d(voxIdxF,roiIdxS2)
  \<close>
  An index past the end of an array raises IndexError, an assignment of arrays of
  different lengths raises ValueError.
\<close>

definition roi_candidates ::
  "roi_inputs \<Rightarrow> nat \<Rightarrow> nat \<Rightarrow> string \<Rightarrow> py_error + bool list" where
  "roi_candidates inp nVerts nValidVerts roi =
     (if lower roi = ''cortex'' then Inr (replicate (length (Lmask inp)) True)
      else
        (case get_roi inp roi of
           None \<Rightarrow> Inl KeyError
         | Some roiIdxS1 \<Rightarrow>
             if list_ex (\<lambda>i. nValidVerts \<le> i) roiIdxS1 then Inl IndexError
             else
               (let roiIdxB1 = fold (\<lambda>i b. b[i := True]) roiIdxS1 (replicate nValidVerts False)
                in if list_ex (\<lambda>i. nVerts \<le> i) (vertIdx inp) then Inl IndexError
                   else if length (vertIdx inp) \<noteq> nValidVerts then Inl ValueError
                   else
                     (let roiIdxB2 = fold (\<lambda>(i, x) b. b[i := x]) (zip (vertIdx inp) roiIdxB1)
                                          (replicate nVerts False);
                          roiIdxS2 = filter (\<lambda>i. roiIdxB2 ! i) [0 ..< nVerts]
                      in Inr (map (\<lambda>i. i \<in> set roiIdxS2) (voxIdx inp))))))"

text \<open>
  \<^verbatim>\<open>
  tmpMask[:,ir,0] = np.all(np.array([roiIdxB3,Lmask,CxMask]),axis=0)
  tmpMask[:,ir,1] = np.all(np.array([roiIdxB3,Rmask,CxMask]),axis=0)
  \<close>
  The array \<open>tmpMask\<close> of shape (voxels, ROIs, 2) is kept as one pair of columns
  (left, right) for each ROI. Both results of \<^verbatim>\<open>get_vox_dist\<close> have one entry for each
  voxel of the grid; a different length is a shape mismatch.
\<close>

definition all3 :: "bool list \<Rightarrow> bool list \<Rightarrow> bool list \<Rightarrow> bool list" where
  "all3 a b c = map (\<lambda>(x, y, z). x \<and> y \<and> z) (zip a (zip b c))"

definition roi_columns ::
  "roi_inputs \<Rightarrow> real \<Rightarrow> nat \<Rightarrow> nat \<Rightarrow> nat \<Rightarrow> string \<Rightarrow> py_error + bool list \<times> bool list" where
  "roi_columns inp Dst nvox nVerts nValidVerts roi =
     (case roi_candidates inp nVerts nValidVerts roi of
        Inl e \<Rightarrow> Inl e
      | Inr roiIdxB3 \<Rightarrow>
          if length (voxIdx inp) \<noteq> nvox \<or> length (voxDst inp) \<noteq> nvox then Inl ValueError
          else Inr (all3 roiIdxB3 (Lmask inp) (CxMask inp Dst),
                    all3 roiIdxB3 (Rmask inp) (CxMask inp Dst)))"

text \<open>
  \<^verbatim>\<open>
  if 'cortex' in roiListL:
      cIdx = roiListL.index('cortex')
      OtherROIs = tmpMask[:,np.arange(len(roiList))!=cIdx,0]
      tmpMask[:,cIdx,0] = np.logical_and(np.logical_not(np.any(OtherROIs,axis=1)),tmpMask[:,cIdx,0])
      ... (the same for the right columns)
  \<close>
\<close>

definition any_other :: "bool list list \<Rightarrow> nat \<Rightarrow> nat \<Rightarrow> bool" where
  "any_other cols cIdx v = list_ex (\<lambda>(j, col). j \<noteq> cIdx \<and> col ! v) (List.enumerate 0 cols)"

definition kill_cortex_overlap ::
  "string list \<Rightarrow> (bool list \<times> bool list) list \<Rightarrow> (bool list \<times> bool list) list" where
  "kill_cortex_overlap roiListL tmpMask =
     (if ''cortex'' \<in> set roiListL then
        (let cIdx = length (takeWhile (\<lambda>r. r \<noteq> ''cortex'') roiListL);
             cl = map (\<lambda>(v, x). \<not> any_other (map fst tmpMask) cIdx v \<and> x)
                      (List.enumerate 0 (fst (tmpMask ! cIdx)));
             cr = map (\<lambda>(v, x). \<not> any_other (map snd tmpMask) cIdx v \<and> x)
                      (List.enumerate 0 (snd (tmpMask ! cIdx)))
         in tmpMask[cIdx := (cl, cr)])
      else tmpMask)"

text \<open>
  \<^verbatim>\<open>toCut = np.sum(tmpMask,axis=1)>1\<close> sums over the ROI axis, so \<open>toCut\<close> has shape
  (voxels, 2): one flag for each voxel and hemisphere.
\<close>

definition toCut :: "nat \<Rightarrow> (bool list \<times> bool list) list \<Rightarrow> (bool \<times> bool) list" where
  "toCut nvox tmpMask =
     map (\<lambda>v. (1 < length (filter (\<lambda>c. fst c ! v) tmpMask),
                1 < length (filter (\<lambda>c. snd c ! v) tmpMask))) [0 ..< nvox]"

text \<open>
  \<^verbatim>\<open>tmpMask[toCut] = False\<close> indexes the three-dimensional \<open>tmpMask\<close> with the
  two-dimensional boolean array \<open>toCut\<close>. numpy matches a boolean index against the
  leading axes of the indexed array, here (voxels, ROIs): a true flag at position
  \<open>(v, j)\<close> of \<open>toCut\<close> clears \<open>tmpMask[v, j, :]\<close>, the entries of ROI number \<open>j\<close> in both
  hemispheres. The second axis of \<open>toCut\<close> has length 2 and that of \<open>tmpMask\<close> the number
  of ROIs. numpy releases that check shapes (\<open>strict\<close>) raise IndexError unless there are
  exactly two ROIs; earlier releases index with the positions of the true flags
  without a check. Both behaviours are modelled.
\<close>

definition clear_rows ::
  "(bool \<times> bool \<Rightarrow> bool) \<Rightarrow> (bool \<times> bool) list \<Rightarrow> bool list \<Rightarrow> bool list" where
  "clear_rows sel tc col = map (\<lambda>(x, c). x \<and> \<not> sel c) (zip col tc)"

definition cut_assign ::
  "bool \<Rightarrow> (bool \<times> bool) list \<Rightarrow> (bool list \<times> bool list) list
     \<Rightarrow> py_error + (bool list \<times> bool list) list" where
  "cut_assign strict tc tmpMask =
     (if strict \<and> length tmpMask \<noteq> 2 then Inl IndexError
      else Inr (map (\<lambda>(j, (l, r)).
                  if j = 0 then (clear_rows fst tc l, clear_rows fst tc r)
                  else if j = 1 then (clear_rows snd tc l, clear_rows snd tc r)
                  else (l, r))
                (List.enumerate 0 tmpMask)))"

text \<open>
  \<^verbatim>\<open>
  for ir,roi in enumerate(roiList):
      mask[tmpMask[:,ir,0]] = -ir-1
      mask[tmpMask[:,ir,1]] = ir+1
      roiIdx[roi] = ir+1
  \<close>
  The dictionary \<open>roiIdx\<close> is an association list in insertion order.
\<close>

definition dict_set ::
  "string \<Rightarrow> int \<Rightarrow> (string \<times> int) list \<Rightarrow> (string \<times> int) list" where
  "dict_set k v d =
     (if k \<in> set (map fst d) then map (\<lambda>(k', v'). if k' = k then (k', v) else (k', v')) d
      else d @ [(k, v)])"

definition put_mask :: "int list \<Rightarrow> bool list \<Rightarrow> int \<Rightarrow> int list" where
  "put_mask msk sel val = map (\<lambda>(m, b). if b then val else m) (zip msk sel)"

definition assign_rois ::
  "string list \<Rightarrow> (bool list \<times> bool list) list \<Rightarrow> int list \<times> (string \<times> int) list
     \<Rightarrow> int list \<times> (string \<times> int) list" where
  "assign_rois roiList tmpMask start =
     fold (\<lambda>(ir, roi) (msk, idx).
             (put_mask (put_mask msk (fst (tmpMask ! ir)) (- int ir - 1))
                       (snd (tmpMask ! ir)) (int ir + 1),
              dict_set roi (int ir + 1) idx))
          (List.enumerate 0 roiList) start"

text \<open>
  The whole function. \<^verbatim>\<open>nVerts = np.max(coords.shape)\<close> is the larger of the number of
  rows and 3, since \<open>coords\<close> has three columns; likewise \<open>nValidVerts\<close>. The message
  printed under \<^verbatim>\<open>'cut'\<close> is not part of the result.
  \<^verbatim>\<open>
  mask = np.zeros(np.prod(shape),dtype=np.int64)
  roiIdx = {}
  if overlapOpt=='cut':
      toCut = np.sum(tmpMask,axis=1)>1
      tmpMask[toCut] = False
      for ir,roi in enumerate(roiList): ...
      mask.shape = shape
  elif overlapOpt=='split':
      pass
  return mask,roiIdx
  \<close>
\<close>

definition get_roi_masks ::
  "bool \<Rightarrow> roi_inputs \<Rightarrow> roi_arg \<Rightarrow> real \<Rightarrow> string \<Rightarrow> py_error + roi_result" where
  "get_roi_masks strict inp roiList_arg Dst overlapOpt =
     (let shape = grid_shape (ref_shape inp);
          nVerts = max (n_coords inp) 3
      in if list_ex (\<lambda>i. n_coords inp \<le> i) (vertIdx inp) then Inl IndexError
         else
           (let nValidVerts = max (length (vertIdx inp)) 3;
                roiList = (case roiList_arg of
                             RoiNone \<Rightarrow> roi_names inp
                           | RoiStr s \<Rightarrow> [s]
                           | RoiList l \<Rightarrow> l);
                nvox = prod_list shape
            in case sequence_results
                      (map (roi_columns inp Dst nvox nVerts nValidVerts) roiList) of
                 Inl e \<Rightarrow> Inl e
               | Inr cols \<Rightarrow>
                   (let tmpMask = kill_cortex_overlap (map lower roiList) cols;
                        mask0 = replicate nvox 0
                    in if overlapOpt = ''cut'' then
                         (case cut_assign strict (toCut nvox tmpMask) tmpMask of
                            Inl e \<Rightarrow> Inl e
                          | Inr tmpMask' \<Rightarrow>
                              (case assign_rois roiList tmpMask' (mask0, []) of
                                 (msk, idx) \<Rightarrow>
                                   Inr \<lparr>mask_data = msk, mask_shape = shape, roiIdx = idx\<rparr>))
                       else Inr \<lparr>mask_data = mask0, mask_shape = [nvox], roiIdx = []\<rparr>)))"

section \<open>Distortion analyzer: \<^verbatim>\<open>get_flatmap_distortion\<close>, areal mode\<close>

text \<open>
  A numpy float: a finite value (an exact real in this model), one of the two
  infinities, or not-a-number. Division by zero does not raise in numpy; it yields
  an infinity, or not-a-number for \<open>0/0\<close>.
\<close>

datatype fl = Fin real | PInf | NInf | NaN

fun fl_add :: "fl \<Rightarrow> fl \<Rightarrow> fl" where
  "fl_add (Fin a) (Fin b) = Fin (a + b)"
| "fl_add NaN _ = NaN"
| "fl_add _ NaN = NaN"
| "fl_add PInf NInf = NaN"
| "fl_add NInf PInf = NaN"
| "fl_add PInf _ = PInf"
| "fl_add _ PInf = PInf"
| "fl_add NInf _ = NInf"
| "fl_add _ NInf = NInf"

fun fl_div :: "fl \<Rightarrow> fl \<Rightarrow> fl" where
  "fl_div (Fin a) (Fin b) =
     (if b = 0 then (if a = 0 then NaN else if 0 < a then PInf else NInf) else Fin (a / b))"
| "fl_div (Fin a) PInf = Fin 0"
| "fl_div (Fin a) NInf = Fin 0"
| "fl_div PInf (Fin b) = (if 0 \<le> b then PInf else NInf)"
| "fl_div NInf (Fin b) = (if 0 \<le> b then NInf else PInf)"
| "fl_div _ _ = NaN"

text \<open>
  \<^verbatim>\<open>np.nan_to_num\<close> replaces not-a-number by 0 and an infinity by the largest finite
  double of the same sign. \<^verbatim>\<open>vertratios[vertratios==0] = 1\<close> then replaces 0 by 1.
\<close>

definition max_float :: real where
  "max_float = (2 - 1 / 2 ^ 52) * 2 ^ 1023"

fun nan_to_num :: "fl \<Rightarrow> fl" where
  "nan_to_num NaN = Fin 0"
| "nan_to_num PInf = Fin max_float"
| "nan_to_num NInf = Fin (- max_float)"
| "nan_to_num (Fin x) = Fin x"

definition zero_to_one :: "fl \<Rightarrow> fl" where
  "zero_to_one x = (if x = Fin 0 then Fin 1 else x)"

fun fl_log :: "fl \<Rightarrow> fl" where
  "fl_log (Fin x) = (if 0 < x then Fin (ln x) else if x = 0 then NInf else NaN)"
| "fl_log PInf = PInf"
| "fl_log NInf = NaN"
| "fl_log NaN = NaN"

text \<open>
  \<^verbatim>\<open>
  triareas = lambda tr,v: np.array([np.linalg.norm(np.cross(a-b, a-c))/2
                                    for a,b,c in v[tr,:]])
  \<close>
  Indexing \<open>v\<close> with a vertex index past its end raises IndexError.
\<close>

fun vsub :: "vec3 \<Rightarrow> vec3 \<Rightarrow> vec3" where
  "vsub (x1, y1, z1) (x2, y2, z2) = (x1 - x2, y1 - y2, z1 - z2)"

fun cross :: "vec3 \<Rightarrow> vec3 \<Rightarrow> vec3" where
  "cross (x1, y1, z1) (x2, y2, z2) = (y1 * z2 - z1 * y2, z1 * x2 - x1 * z2, x1 * y2 - y1 * x2)"

fun norm3 :: "vec3 \<Rightarrow> real" where
  "norm3 (x, y, z) = sqrt (x\<^sup>2 + y\<^sup>2 + z\<^sup>2)"

fun tri_area :: "vec3 list \<Rightarrow> tri \<Rightarrow> real" where
  "tri_area v (i, j, k) = norm3 (cross (vsub (v ! i) (v ! j)) (vsub (v ! i) (v ! k))) / 2"

definition ravel :: "tri list \<Rightarrow> nat list" where
  "ravel tr = concat (map tri_list tr)"

definition triareas :: "tri list \<Rightarrow> vec3 list \<Rightarrow> py_error + real list" where
  "triareas tr v =
     (if list_ex (\<lambda>i. length v \<le> i) (ravel tr) then Inl IndexError
      else Inr (map (tri_area v) tr))"

text \<open>
  \<^verbatim>\<open>vertratios[flattri[:,0]] += flatareas/fidareas\<close>. numpy evaluates
  \<open>a[idx] += vals\<close> as \<open>a[idx] = a[idx] + vals\<close>: the old values are read first, the
  sums are then stored one index after the other, so for an index that occurs more
  than once in \<open>idx\<close> only the last sum stays.
\<close>

definition fancy_iadd :: "fl list \<Rightarrow> nat list \<Rightarrow> fl list \<Rightarrow> py_error + fl list" where
  "fancy_iadd arr idx vals =
     (if list_ex (\<lambda>i. length arr \<le> i) idx then Inl IndexError
      else Inr (fold (\<lambda>(i, x) a. a[i := fl_add (arr ! i) x]) (zip idx vals) arr))"

text \<open>
  \<^verbatim>\<open>vertratios /= np.bincount(flattri.ravel())\<close>. The count array has one entry for
  each index up to the largest one that occurs; it must have the length of
  \<open>vertratios\<close> (or length 1, which numpy broadcasts), else ValueError.
\<close>

definition bincount :: "nat list \<Rightarrow> nat list" where
  "bincount xs = (if xs = [] then [] else map (count_list xs) [0 ..< Suc (Max (set xs))])"

definition div_counts :: "fl list \<Rightarrow> nat list \<Rightarrow> py_error + fl list" where
  "div_counts arr counts =
     (if length counts = length arr then
        Inr (map (\<lambda>(x, c). fl_div x (Fin (real c))) (zip arr counts))
      else if length counts = 1 then
        Inr (map (\<lambda>x. fl_div x (Fin (real (counts ! 0)))) arr)
      else Inl ValueError)"

fun col0 :: "tri \<Rightarrow> nat" where "col0 (a, b, c) = a"
fun col1 :: "tri \<Rightarrow> nat" where "col1 (a, b, c) = b"
fun col2 :: "tri \<Rightarrow> nat" where "col2 (a, b, c) = c"

text \<open>
  The branch \<^verbatim>\<open>type=="areal"\<close> of \<^verbatim>\<open>get_flatmap_distortion\<close> for one hemisphere.
  \<^verbatim>\<open>
  fidareas = triareas(flattri, fidvert)
  flatareas = triareas(flattri, flatvert)
  vertratios = np.zeros((len(fidvert),))
  vertratios[flattri[:,0]] += flatareas/fidareas
  vertratios[flattri[:,1]] += flatareas/fidareas
  vertratios[flattri[:,2]] += flatareas/fidareas
  vertratios /= np.bincount(flattri.ravel())
  vertratios = np.nan_to_num(vertratios)
  vertratios[vertratios==0] = 1
  distortions.append(np.log(vertratios))
  \<close>
\<close>

definition get_flatmap_distortion_areal :: "vec3 list \<Rightarrow> vec3 list \<Rightarrow> tri list \<Rightarrow> py_error + fl list" where
  "get_flatmap_distortion_areal fidvert flatvert flattri =
     (case triareas flattri fidvert of
        Inl e \<Rightarrow> Inl e
      | Inr fidareas \<Rightarrow>
     (case triareas flattri flatvert of
        Inl e \<Rightarrow> Inl e
      | Inr flatareas \<Rightarrow>
     (let ratios = map (\<lambda>(a, b). fl_div (Fin a) (Fin b)) (zip flatareas fidareas);
          vertratios = replicate (length fidvert) (Fin 0)
      in
     (case fancy_iadd vertratios (map col0 flattri) ratios of
        Inl e \<Rightarrow> Inl e
      | Inr v0 \<Rightarrow>
     (case fancy_iadd v0 (map col1 flattri) ratios of
        Inl e \<Rightarrow> Inl e
      | Inr v1 \<Rightarrow>
     (case fancy_iadd v1 (map col2 flattri) ratios of
        Inl e \<Rightarrow> Inl e
      | Inr v2 \<Rightarrow>
     (case div_counts v2 (bincount (ravel flattri)) of
        Inl e \<Rightarrow> Inl e
      | Inr v3 \<Rightarrow> Inr (map (\<lambda>x. fl_log (zero_to_one (nan_to_num x))) v3))))))))"

section \<open>Geodesic disc sampler: \<^verbatim>\<open>get_tissots_indicatrix\<close>\<close>

text \<open>
  The parameters \<open>radius\<close> and \<open>spacing\<close> are Python numbers, integers by default
  (10 and 50). The function is Python 2 code (it uses the \<^verbatim>\<open>print\<close> statement), where
  \<^verbatim>\<open>spacing/2\<close> is floor division on integers and true division on floats.
\<close>

datatype pynum = PyInt int | PyFloat real

fun num_val :: "pynum \<Rightarrow> real" where
  "num_val (PyInt n) = of_int n"
| "num_val (PyFloat x) = x"

fun half_plus_20 :: "pynum \<Rightarrow> real" where
  "half_plus_20 (PyInt n) = of_int (n div 2 + 20)"
| "half_plus_20 (PyFloat x) = x / 2 + 20"

fun times_2 :: "pynum \<Rightarrow> real" where
  "times_2 (PyInt n) = of_int (n * 2)"
| "times_2 (PyFloat x) = x * 2"

text \<open>
  \<^verbatim>\<open>nx.algorithms.single_source_shortest_path(G, source, cutoff)\<close> of networkx 1.x is a
  breadth-first search by hop count:
  \<^verbatim>\<open>
  level=0
  nextlevel={source:1}
  paths={source:[source]}
  if cutoff==0:
      return paths
  while nextlevel:
      thislevel=nextlevel
      nextlevel={}
      for v in thislevel:
          for w in G[v]:
              if w not in paths:
                  paths[w]=paths[v]+[w]
                  nextlevel[w]=1
      level=level+1
      if (cutoff is not None and cutoff <= level):  break
  return paths
  \<close>
  The dictionaries are association lists in insertion order. \<open>G[v]\<close> raises KeyError
  for a vertex that is not a node of the graph, which can only be the source.
\<close>

type_synonym paths = "(nat \<times> nat list) list"

definition path_to :: "paths \<Rightarrow> nat \<Rightarrow> nat list" where
  "path_to ps v = (case map_of ps v of None \<Rightarrow> [] | Some p \<Rightarrow> p)"

definition visit :: "nat \<Rightarrow> nat \<Rightarrow> paths \<times> nat list \<Rightarrow> paths \<times> nat list" where
  "visit v w st =
     (case map_of (fst st) w of
        Some p \<Rightarrow> st
      | None \<Rightarrow> (fst st @ [(w, path_to (fst st) v @ [w])], snd st @ [w]))"

definition expand_level :: "graph \<Rightarrow> nat list \<Rightarrow> paths \<Rightarrow> paths \<times> nat list" where
  "expand_level G thislevel ps = fold (\<lambda>v st. fold (visit v) (adj G v) st) thislevel (ps, [])"

function bfs_levels :: "graph \<Rightarrow> real \<Rightarrow> nat \<Rightarrow> nat list \<Rightarrow> paths \<Rightarrow> paths" where
  "bfs_levels G cutoff level thislevel ps =
     (if thislevel = [] then ps
      else if cutoff \<le> real (level + 1) then fst (expand_level G thislevel ps)
      else bfs_levels G cutoff (level + 1) (snd (expand_level G thislevel ps))
             (fst (expand_level G thislevel ps)))"
  by pat_completeness auto
termination
proof (relation "measure (\<lambda>(G, cutoff, level, thislevel, ps). nat \<lceil>cutoff\<rceil> - level)")
  show "wf (measure (\<lambda>(G, cutoff, level, thislevel, ps). nat \<lceil>cutoff\<rceil> - level))"
    by simp
next
  fix G :: graph and cutoff :: real and level :: nat and thislevel :: "nat list" and ps :: paths
  assume "\<not> cutoff \<le> real (level + 1)"
  then have "real (level + 1) < cutoff" by simp
  then have "int (level + 1) < \<lceil>cutoff\<rceil>" by linarith
  then have "level + 1 < nat \<lceil>cutoff\<rceil>" by linarith
  then show "((G, cutoff, level + 1, snd (expand_level G thislevel ps),
               fst (expand_level G thislevel ps)),
              (G, cutoff, level, thislevel, ps))
             \<in> measure (\<lambda>(G, cutoff, level, thislevel, ps). nat \<lceil>cutoff\<rceil> - level)"
    by simp
qed

definition single_source_shortest_path :: "graph \<Rightarrow> nat \<Rightarrow> real \<Rightarrow> py_error + paths" where
  "single_source_shortest_path G source cutoff =
     (if cutoff = 0 then Inr [(source, [source])]
      else if map_of G source = None then Inl KeyError
      else Inr (bfs_levels G cutoff 0 [source] [(source, [source])]))"

text \<open>
  \<^verbatim>\<open>
  def get_path_len_mm(path, verts):
      if len(path)==1:
          return 0
      hops = zip(path[:-1], path[1:])
      hopvecs = np.vstack([verts[a] - verts[b] for a,b in hops])
      return np.sqrt((hopvecs**2).sum(1)).sum()
  \<close>
  \<^verbatim>\<open>np.vstack\<close> of an empty list raises ValueError.
\<close>

definition get_path_len_mm :: "nat list \<Rightarrow> vec3 list \<Rightarrow> py_error + real" where
  "get_path_len_mm path verts =
     (if length path = 1 then Inr 0
      else if path = [] then Inl ValueError
      else if list_ex (\<lambda>a. length verts \<le> a) path then Inl IndexError
      else Inr (sum_list (map (\<lambda>(a, b). norm3 (vsub (verts ! a) (verts ! b)))
                              (zip (butlast path) (tl path)))))"

text \<open>
  \<^verbatim>\<open>
  def memo_get_path_len_mm(path, verts, memo=dict()):
      if len(path)==1:
          return 0
      if tuple(path) in memo:
          return memo[tuple(path)]
      lasthoplen = np.sqrt(((verts[path[-2]] - verts[path[-1]])**2).sum())
      pathlen = memo_get_path_len_mm(path[:-1], verts, memo) + lasthoplen
      memo[tuple(path)] = pathlen
      return pathlen
  \<close>
  The dictionary \<open>memo\<close> is passed in and returned.
\<close>

fun memo_get_path_len_mm ::
  "nat list \<Rightarrow> vec3 list \<Rightarrow> (nat list \<rightharpoonup> real) \<Rightarrow> py_error + real \<times> (nat list \<rightharpoonup> real)" where
  "memo_get_path_len_mm path verts memo =
     (if length path = 1 then Inr (0, memo)
      else
        (case memo path of
           Some d \<Rightarrow> Inr (d, memo)
         | None \<Rightarrow>
             if length path < 2 then Inl IndexError
             else if length verts \<le> path ! (length path - 2) \<or> length verts \<le> last path
               then Inl IndexError
             else
               (case memo_get_path_len_mm (butlast path) verts memo of
                  Inl e \<Rightarrow> Inl e
                | Inr (d, memo') \<Rightarrow>
                    (let pathlen = d + norm3 (vsub (verts ! (path ! (length path - 2)))
                                                   (verts ! last path))
                     in Inr (pathlen, memo'(path \<mapsto> pathlen))))))"

fun all_dists ::
  "paths \<Rightarrow> vec3 list \<Rightarrow> (nat list \<rightharpoonup> real) \<Rightarrow> py_error + (nat \<times> real) list" where
  "all_dists [] verts memo = Inr []"
| "all_dists ((vi, p) # rest) verts memo =
     (case memo_get_path_len_mm p verts memo of
        Inl e \<Rightarrow> Inl e
      | Inr (d, memo') \<Rightarrow>
          (case all_dists rest verts memo' of
             Inl e \<Rightarrow> Inl e
           | Inr ds \<Rightarrow> Inr ((vi, d) # ds)))"

text \<open>
  \<^verbatim>\<open>distfun = lambda d: np.tanh(radius-d)/2 + 0.5\<close> and
  \<^verbatim>\<open>tissot_array[verts] += vals\<close>.
\<close>

definition distfun :: "pynum \<Rightarrow> real \<Rightarrow> real" where
  "distfun radius d = tanh (num_val radius - d) / 2 + 0.5"

definition array_iadd :: "real list \<Rightarrow> nat list \<Rightarrow> real list \<Rightarrow> py_error + real list" where
  "array_iadd arr idx vals =
     (if list_ex (\<lambda>i. length arr \<le> i) idx then Inl IndexError
      else Inr (fold (\<lambda>(i, x) a. a[i := arr ! i + x]) (zip idx vals) arr))"

text \<open>
  \<^verbatim>\<open>
  scrap = False
  for cv in centers:
      if cv in paths:
          center_dist = get_path_len_mm(paths[cv], fidvert)
          if center_dist < spacing:
              scrap = True
              break
  \<close>
\<close>

fun scrap_check :: "paths \<Rightarrow> vec3 list \<Rightarrow> real \<Rightarrow> nat list \<Rightarrow> py_error + bool" where
  "scrap_check ps verts spacing [] = Inr False"
| "scrap_check ps verts spacing (cv # cs) =
     (case map_of ps cv of
        None \<Rightarrow> scrap_check ps verts spacing cs
      | Some p \<Rightarrow>
          (case get_path_len_mm p verts of
             Inl e \<Rightarrow> Inl e
           | Inr center_dist \<Rightarrow>
               if center_dist < spacing then Inr True else scrap_check ps verts spacing cs))"

text \<open>
  The state of the sampling loop of one hemisphere, and one pass through the loop body
  for the candidate \<open>centervert\<close>.
  \<^verbatim>\<open>
  paths = nx.algorithms.single_source_shortest_path(G, centervert, spacing/2 + 20)
  ... (the check above)
  if scrap:
      numfails += 1
      continue
  centers.append(centervert)
  numfails = 0
  paths = nx.algorithms.single_source_shortest_path(G, centervert, radius*2)
  mymemo = dict()
  dists = dict([(vi,memo_get_path_len_mm(p, fidvert, mymemo)) for vi,p in paths.iteritems()])
  verts, vals = map(np.array, zip(*[(vi,distfun(d)) for vi,d in dists.iteritems()]))
  tissot_array[verts] += vals
  cnum += 1
  \<close>
\<close>

record tissot_state =
  centers :: "nat list"
  numfails :: nat
  tissot_array :: "real list"
  cnum :: nat

definition paint :: "graph \<Rightarrow> vec3 list \<Rightarrow> pynum \<Rightarrow> nat \<Rightarrow> real list \<Rightarrow> py_error + real list" where
  "paint G fidvert radius centervert arr =
     (case single_source_shortest_path G centervert (times_2 radius) of
        Inl e \<Rightarrow> Inl e
      | Inr ps \<Rightarrow>
          (case all_dists ps fidvert Map.empty of
             Inl e \<Rightarrow> Inl e
           | Inr dists \<Rightarrow> array_iadd arr (map fst dists) (map (distfun radius \<circ> snd) dists)))"

definition tissot_step ::
  "graph \<Rightarrow> vec3 list \<Rightarrow> pynum \<Rightarrow> pynum \<Rightarrow> nat \<Rightarrow> tissot_state \<Rightarrow> py_error + tissot_state" where
  "tissot_step G fidvert radius spacing centervert st =
     (case single_source_shortest_path G centervert (half_plus_20 spacing) of
        Inl e \<Rightarrow> Inl e
      | Inr ps \<Rightarrow>
          (case scrap_check ps fidvert (num_val spacing) (centers st) of
             Inl e \<Rightarrow> Inl e
           | Inr scrap \<Rightarrow>
               if scrap then Inr (st\<lparr>numfails := numfails st + 1\<rparr>)
               else
                 (case paint G fidvert radius centervert (tissot_array st) of
                    Inl e \<Rightarrow> Inl e
                  | Inr arr \<Rightarrow>
                      Inr \<lparr>centers = centers st @ [centervert], numfails = 0,
                           tissot_array = arr, cnum = cnum st + 1\<rparr>)))"

text \<open>
  \<^verbatim>\<open>while numfails < maxfails: centervert = np.random.randint(nvert); ...\<close>. The values
  drawn by \<^verbatim>\<open>np.random.randint\<close> are given as the list \<open>picks\<close>; the result is the state
  reached when the loop ends or when the given draws are used up, so that every point of
  a run is the result for some list of draws. \<^verbatim>\<open>randint(0)\<close> raises ValueError.
\<close>

fun tissot_loop ::
  "graph \<Rightarrow> vec3 list \<Rightarrow> pynum \<Rightarrow> pynum \<Rightarrow> int \<Rightarrow> nat list \<Rightarrow> tissot_state
     \<Rightarrow> py_error + tissot_state" where
  "tissot_loop G fidvert radius spacing maxfails [] st = Inr st"
| "tissot_loop G fidvert radius spacing maxfails (centervert # picks) st =
     (if int (numfails st) < maxfails then
        (if length fidvert = 0 then Inl ValueError
         else
           (case tissot_step G fidvert radius spacing centervert st of
              Inl e \<Rightarrow> Inl e
            | Inr st' \<Rightarrow> tissot_loop G fidvert radius spacing maxfails picks st'))
      else Inr st)"

definition get_tissots_hemi ::
  "vec3 list \<Rightarrow> tri list \<Rightarrow> pynum \<Rightarrow> pynum \<Rightarrow> int \<Rightarrow> nat list \<Rightarrow> py_error + tissot_state" where
  "get_tissots_hemi fidvert fidtri radius spacing maxfails picks =
     tissot_loop (make_surface_graph fidtri) fidvert radius spacing maxfails picks
       \<lparr>centers = [], numfails = 0, tissot_array = replicate (length fidvert) 0, cnum = 0\<rparr>"

text \<open>
  The whole function runs the loop for each hemisphere (\<^verbatim>\<open>for hem in ["lh", "rh"]\<close>) and
  collects the accumulator arrays and the centre lists in \<open>tissots\<close> and \<open>allcenters\<close>.
  A hemisphere is given by its fiducial vertices, its triangles and its random draws.
\<close>

definition get_tissots_indicatrix ::
  "(vec3 list \<times> tri list \<times> nat list) list \<Rightarrow> pynum \<Rightarrow> pynum \<Rightarrow> int
     \<Rightarrow> py_error + tissot_state list" where
  "get_tissots_indicatrix hems radius spacing maxfails =
     sequence_results
       (map (\<lambda>(fidvert, fidtri, picks).
               get_tissots_hemi fidvert fidtri radius spacing maxfails picks) hems)"


section \<open>Reference notions and sample meshes\<close>

text \<open>
  The weighted average as the specification words it: the weights of the neighbourhood
  are normalised by their sum. It is compared below with what \<open>smooth_vertex\<close>
  computes.
\<close>

definition weighted_average_spec ::
  "real \<Rightarrow> vec3 list \<Rightarrow> real list \<Rightarrow> nat \<Rightarrow> nat list \<Rightarrow> real" where
  "weighted_average_spec smooth pts curv i nbrs =
     sum_list (map (\<lambda>j. gauss smooth (pts ! i) (pts ! j) * curv ! j) nbrs)
       / sum_list (map (\<lambda>j. gauss smooth (pts ! i) (pts ! j)) nbrs)"

text \<open>Two vertices share a triangle when some triangle lists both.\<close>

definition shares_triangle :: "tri list \<Rightarrow> (nat \<times> nat) set" where
  "shares_triangle polys =
     {(a, b). \<exists>t \<in> set polys. a \<in> set (tri_list t) \<and> b \<in> set (tri_list t)}"

text \<open>A single right triangle, and a mesh with one proper and one degenerate triangle.\<close>

definition one_triangle :: "tri list" where
  "one_triangle = [(0, 1, 2)]"

definition corner_pts :: "vec3 list" where
  "corner_pts = [(0, 0, 0), (1, 0, 0), (0, 1, 0)]"

definition two_tris :: "tri list" where
  "two_tris = [(0, 1, 2), (3, 3, 4)]"

text \<open>
  A grid of one voxel over two hemispheres of three vertices each. The voxel lies on
  vertex 0 of the left hemisphere, which belongs to both ROIs \<open>A\<close> and \<open>B\<close>.
\<close>

definition overlap_inputs :: roi_inputs where
  "overlap_inputs =
     \<lparr>roi_names = [''A'', ''B''],
      get_roi = [''A'' \<mapsto> [0], ''B'' \<mapsto> [0, 1]],
      vertIdx = [0, 1, 2, 3, 4, 5],
      ref_shape = [1, 1, 1],
      n_coords = 6,
      voxDst = [0],
      voxIdx = [0],
      L_pts = [(0, 0, 0), (1, 0, 0), (0, 1, 0)],
      L_polys = [(0, 1, 2)]\<rparr>"

text \<open>
  Two hemispheres of four vertices each; in each the last vertex is in no triangle of
  the flat mesh (a vertex of the medial wall). The only voxel lies on vertex 3, the last
  vertex of the left hemisphere.
\<close>

definition medial_inputs :: roi_inputs where
  "medial_inputs =
     \<lparr>roi_names = [''A''],
      get_roi = [''A'' \<mapsto> [0]],
      vertIdx = [0, 1, 2, 4, 5, 6],
      ref_shape = [1, 1, 1],
      n_coords = 8,
      voxDst = [0],
      voxIdx = [3],
      L_pts = [(0, 0, 0), (1, 0, 0), (0, 1, 0), (1, 1, 0)],
      L_polys = [(0, 1, 2)]\<rparr>"





text \<open>
  A unit square cut into two triangles along a diagonal, and a strip of two triangles
  whose flat mesh stretches the first triangle.
\<close>

definition square_pts :: "vec3 list" where
  "square_pts = [(0, 0, 0), (1, 0, 0), (1, 1, 0), (0, 1, 0)]"

definition square_tris :: "tri list" where
  "square_tris = [(0, 1, 2), (0, 2, 3)]"






text \<open>
  What the sampler checks between two accepted centres: the search from the later centre
  returns, and if it reaches the earlier centre, the measured length of the path found is
  at least \<open>spacing\<close>.
\<close>

definition separated :: "graph \<Rightarrow> vec3 list \<Rightarrow> pynum \<Rightarrow> nat list \<Rightarrow> bool" where
  "separated G verts spacing cs =
     (\<forall>j < length cs. \<forall>i < j.
        \<exists>ps. single_source_shortest_path G (cs ! j) (half_plus_20 spacing) = Inr ps
          \<and> (\<forall>p. map_of ps (cs ! i) = Some p
                \<longrightarrow> (\<exists>d. get_path_len_mm p verts = Inr d \<and> num_val spacing \<le> d)))"


text \<open>
  A chain of 21 triangles that share single vertices: triangle \<open>i\<close> has the vertices
  \<open>2i\<close>, \<open>2i+1\<close>, \<open>2i+2\<close>. The even vertices lie on a line, 1/32 apart; \<open>chain_walk\<close> is
  the walk from vertex 42 to vertex 0 along them.
\<close>

definition chain_tris :: "tri list" where
  "chain_tris = map (\<lambda>i. (2 * i, 2 * i + 1, 2 * i + 2)) [0 ..< 21]"

definition chain_pts :: "vec3 list" where
  "chain_pts = map (\<lambda>k. (real k / 64, if even k then 0 else 1 / 64, 0)) [0 ..< 43]"

definition chain_walk :: "nat list" where
  "chain_walk = rev (map (\<lambda>k. 2 * k) [0 ..< 22])"


section \<open>Properties of the curvature smoother\<close>

lemma sequence_results_Inr: "sequence_results (map Inr xs) = Inr xs"
  by (induction xs) simp_all

text \<open>
  C8. With \<open>smooth = 0\<close> the smoother returns, for every hemisphere, the raw curvature
  array of the estimator, unchanged.
\<close>

theorem get_curvature_radius_zero:
  "get_curvature estimator hemis 0 neighborhood
     = Inr (map (\<lambda>hemi. estimator (fst hemi) (snd hemi)) hemis)"
proof -
  have "map (get_curvature_hemi estimator 0 neighborhood) hemis
          = map Inr (map (\<lambda>hemi. estimator (fst hemi) (snd hemi)) hemis)"
    by (simp add: get_curvature_hemi_def)
  then show ?thesis
    unfolding get_curvature_def by (simp only: sequence_results_Inr)
qed

lemma adj_empty: "adj [] a = []"
  by (simp add: adj_def)

lemma map_of_dict_put: "map_of (dict_put k v d) = (map_of d)(k \<mapsto> v)"
  by (induction d) (auto simp: fun_eq_iff)

lemma adj_dict_put: "adj (dict_put k v d) a = (if a = k then v else adj d a)"
  by (simp add: adj_def map_of_dict_put)

lemma set_set_union: "set (set_union s poly) = set s \<union> set poly"
  unfolding set_union_def by (induction poly arbitrary: s) auto

lemma adj_faces_add:
  "set (adj (faces_add poly fs) a)
     = set (adj fs a) \<union> (if a \<in> set (tri_list poly) then set (tri_list poly) else {})"
  by (cases poly) (auto simp: faces_add_def adj_dict_put set_set_union)

lemma adj_fold_faces_add:
  "set (adj (fold faces_add polys fs) a)
     = set (adj fs a) \<union> (\<Union>t \<in> {t \<in> set polys. a \<in> set (tri_list t)}. set (tri_list t))"
proof (induction polys arbitrary: fs)
  case Nil
  then show ?case by simp
next
  case (Cons p ps)
  show ?case by (auto simp: Cons.IH adj_faces_add split: if_splits)
qed

lemma adj_faces:
  "set (adj (faces polys) a) = (\<Union>t \<in> {t \<in> set polys. a \<in> set (tri_list t)}. set (tri_list t))"
  by (simp add: faces_def adj_fold_faces_add adj_empty)

lemma adj_faces_shares: "set (adj (faces polys) a) = {b. (a, b) \<in> shares_triangle polys}"
  by (auto simp: adj_faces shares_triangle_def)

text \<open>
  \<open>getpts\<close> with hop count \<open>n\<close> yields the end points of all walks of exactly \<open>n + 1\<close>
  steps through the neighbour sets.
\<close>

lemma set_getpts:
  "set (getpts fs n p) = {q. (p, q) \<in> {(a, b). b \<in> set (adj fs a)} ^^ Suc n}"
proof (induction n arbitrary: p)
  case 0
  show ?case by (simp add: adj_def split: option.splits)
next
  case (Suc n)
  let ?R = "{(a, b). b \<in> set (adj fs a)}"
  have "set (getpts fs (Suc n) p) = (\<Union>p' \<in> set (adj fs p). set (getpts fs n p'))"
    by (auto simp: adj_def split: option.splits)
  also have "\<dots> = {q. \<exists>p'. (p, p') \<in> ?R \<and> (p', q) \<in> ?R ^^ Suc n}"
    by (auto simp: Suc.IH simp del: relpow.simps)
  also have "\<dots> = {q. (p, q) \<in> ?R ^^ Suc (Suc n)}"
    by (auto simp del: relpow.simps intro: relpow_Suc_I2 dest: relpow_Suc_D2)
  finally show ?case .
qed

lemma set_neighbors_of:
  "set (neighbors_of polys n i) = {q. (i, q) \<in> shares_triangle polys ^^ Suc n}"
proof -
  have "{(a, b). b \<in> set (adj (faces polys) a)} = shares_triangle polys"
    by (auto simp: adj_faces_shares)
  then show ?thesis
    by (simp add: neighbors_of_def set_getpts del: relpow.simps)
qed

lemma sequence_results_nth:
  "sequence_results xs = Inr out
     \<Longrightarrow> length out = length xs \<and> (\<forall>i < length xs. xs ! i = Inr (out ! i))"
proof (induction xs arbitrary: out)
  case Nil
  then show ?case by simp
next
  case (Cons x xs)
  then obtain v vs where x: "x = Inr v" and vs: "sequence_results xs = Inr vs"
    and out: "out = v # vs"
    by (auto split: sum.splits)
  from Cons.IH[OF vs] show ?case
    by (auto simp: x out nth_Cons split: nat.splits)
qed

text \<open>
  C7 (amended). With smoothing enabled and a run that returns, the neighbourhood of vertex
  \<open>i\<close> is the set of vertices reached by \<open>neighborhood + 1\<close> triangle-sharing steps, a
  vertex with an empty neighbourhood gets 0, and any other vertex gets the plain mean
  over its neighbourhood of the products weight times raw curvature, with weight
  \<open>exp (- |\<Delta>|\<^sup>2 / (2 smooth\<^sup>2))\<close>: the sum of the products is divided by the number of
  neighbours, not by the sum of the weights.
\<close>

theorem get_curvature_smoothed_value:
  assumes "smooth \<noteq> 0"
    and "get_curvature_hemi estimator smooth neighborhood (pts, polys) = Inr out"
    and "i < length pts"
  shows "set (neighbors_of polys neighborhood i)
           = {q. (i, q) \<in> shares_triangle polys ^^ Suc neighborhood}
         \<and> out ! i =
           (if neighbors_of polys neighborhood i = [] then 0
            else sum_list (map (\<lambda>j. gauss smooth (pts ! i) (pts ! j) * estimator pts polys ! j)
                               (neighbors_of polys neighborhood i))
                 / real (length (neighbors_of polys neighborhood i)))"
proof -
  let ?f = "smooth_vertex pts polys (estimator pts polys) smooth neighborhood"
  from assms(1,2) have "sequence_results (map ?f [0 ..< length pts]) = Inr out"
    by (simp add: get_curvature_hemi_def)
  from sequence_results_nth[OF this] assms(3) have "?f i = Inr (out ! i)"
    by auto
  then have "out ! i =
           (if neighbors_of polys neighborhood i = [] then 0
            else sum_list (map (\<lambda>j. gauss smooth (pts ! i) (pts ! j) * estimator pts polys ! j)
                               (neighbors_of polys neighborhood i))
                 / real (length (neighbors_of polys neighborhood i)))"
    by (auto simp: smooth_vertex_def Let_def split: if_splits)
  with set_neighbors_of show ?thesis by blast
qed

lemma map_upt_3: "map f [0 ..< length [a, b, c]] = [f 0, f 1, f 2]"
  by (simp add: upt_rec numeral_3_eq_3 numeral_2_eq_2)

lemma neighbors_one_triangle:
  "neighbors_of one_triangle 0 0 = [2, 1, 0]"
  "neighbors_of one_triangle 0 1 = [2, 1, 0]"
  "neighbors_of one_triangle 0 (Suc 0) = [2, 1, 0]"
  "neighbors_of one_triangle 0 2 = [2, 1, 0]"
  by code_simp+

lemma smooth_one_triangle:
  "smooth_vertex corner_pts one_triangle [1, 1, 1] 1 0 0 = Inr ((1 + 2 * exp (- (1 / 2))) / 3)"
  "smooth_vertex corner_pts one_triangle [1, 1, 1] 1 0 1
     = Inr ((1 + exp (- (1 / 2)) + exp (- 1)) / 3)"
  "smooth_vertex corner_pts one_triangle [1, 1, 1] 1 0 2
     = Inr ((1 + exp (- (1 / 2)) + exp (- 1)) / 3)"
  by (simp_all add: smooth_vertex_def neighbors_one_triangle corner_pts_def)

lemma curvature_one_triangle:
  "get_curvature_hemi (\<lambda>_ _. [1, 1, 1]) 1 0 (corner_pts, one_triangle)
     = Inr [(1 + 2 * exp (- (1 / 2))) / 3, (1 + exp (- (1 / 2)) + exp (- 1)) / 3,
            (1 + exp (- (1 / 2)) + exp (- 1)) / 3]"
proof -
  have "map (smooth_vertex corner_pts one_triangle [1, 1, 1] 1 0) [0 ..< length corner_pts]
          = [Inr ((1 + 2 * exp (- (1 / 2))) / 3), Inr ((1 + exp (- (1 / 2)) + exp (- 1)) / 3),
             Inr ((1 + exp (- (1 / 2)) + exp (- 1)) / 3)]"
    unfolding corner_pts_def map_upt_3 unfolding corner_pts_def[symmetric]
    by (simp only: smooth_one_triangle)
  then show ?thesis
    by (simp add: get_curvature_hemi_def)
qed

theorem get_curvature_smoothed_value_witness:
  "(1::real) \<noteq> 0 \<and> 0 < length corner_pts
   \<and> get_curvature_hemi (\<lambda>_ _. [1, 1, 1]) 1 0 (corner_pts, one_triangle)
     = Inr [(1 + 2 * exp (- (1 / 2))) / 3, (1 + exp (- (1 / 2)) + exp (- 1)) / 3,
            (1 + exp (- (1 / 2)) + exp (- 1)) / 3]
   \<and> set (neighbors_of one_triangle 0 0) = {q. (0, q) \<in> shares_triangle one_triangle ^^ Suc 0}
   \<and> [(1 + 2 * exp (- (1 / 2))) / 3, (1 + exp (- (1 / 2)) + exp (- 1)) / 3,
            (1 + exp (- (1 / 2)) + exp (- 1)) / 3] ! 0
      = (\<Sum>j\<leftarrow>[2, 1, 0]. gauss 1 (corner_pts ! 0) (corner_pts ! j) * [1, 1, 1] ! j) / real 3"
proof -
  have h1: "(1::real) \<noteq> 0" by simp
  have h3: "0 < length corner_pts" by (simp add: corner_pts_def)
  from get_curvature_smoothed_value[OF h1 curvature_one_triangle h3] h1 h3 curvature_one_triangle
  show ?thesis
    by (simp add: neighbors_one_triangle del: relpow.simps)
qed

text \<open>
  On a single right triangle with raw curvature 1 everywhere and \<open>smooth = 1\<close> the
  normalised weighted average of the specification is 1 at vertex 0, while the code
  returns \<open>(1 + 2 exp (- 1/2)) / 3\<close>, which is smaller.
\<close>

theorem gaussian_weighted_average_counterexample:
  "get_curvature_hemi (\<lambda>_ _. [1, 1, 1]) 1 0 (corner_pts, one_triangle)
     = Inr [(1 + 2 * exp (- (1 / 2))) / 3, (1 + exp (- (1 / 2)) + exp (- 1)) / 3,
            (1 + exp (- (1 / 2)) + exp (- 1)) / 3]
   \<and> weighted_average_spec 1 corner_pts [1, 1, 1] 0 (neighbors_of one_triangle 0 0) = 1
   \<and> (1 + 2 * exp (- (1 / 2))) / 3 \<noteq> (1::real)"
proof -
  have "exp (- (1 / 2)) < (1::real)" by simp
  then have "(1 + 2 * exp (- (1 / 2))) / 3 \<noteq> (1::real)" by simp
  moreover have "weighted_average_spec 1 corner_pts [1, 1, 1] 0 (neighbors_of one_triangle 0 0) = 1"
  proof -
    have "(0::real) < 1 + 2 * exp (- (1 / 2))"
      by (simp add: add_pos_nonneg)
    then show ?thesis
      by (simp add: weighted_average_spec_def neighbors_one_triangle corner_pts_def)
  qed
  ultimately show ?thesis using curvature_one_triangle by simp
qed

section \<open>Properties of the adjacency structures\<close>

lemma set_dict_add: "set (dict_add v ns) = insert v (set ns)"
  by (auto simp: dict_add_def)

lemma adj_add_edge:
  "set (adj (add_edge g e) a) =
     set (adj g a) \<union> (if a = fst e then {snd e} else {}) \<union> (if a = snd e then {fst e} else {})"
  by (auto simp: add_edge_def adj_dict_put Let_def set_dict_add)

lemma adj_add_edges_from:
  "set (adj (add_edges_from g es) a)
     = set (adj g a) \<union> {b. (a, b) \<in> set es \<or> (b, a) \<in> set es}"
  unfolding add_edges_from_def
proof (induction es arbitrary: g)
  case Nil
  then show ?case by simp
next
  case (Cons e es)
  show ?case
    by (cases e) (auto simp: Cons.IH adj_add_edge split: if_splits)
qed

lemma adj_make_surface_graph:
  "set (adj (make_surface_graph tris) a)
     = {b. \<exists>t \<in> set tris. (a, b) \<in> set (tri_edges t) \<or> (b, a) \<in> set (tri_edges t)}"
  by (auto simp: make_surface_graph_def adj_add_edges_from iter_surfedges_def adj_empty)

lemma self_edge_repeats: "(a, a) \<in> set (tri_edges t) \<Longrightarrow> 2 \<le> count_list (tri_list t) a"
  by (cases t) auto

text \<open>
  C10 (amended). The networkx graph and the neighbour sets of the curvature smoother are
  both symmetric. The networkx graph has a self-loop at \<open>a\<close> only when some triangle
  lists \<open>a\<close> twice. The neighbour sets of the curvature smoother contain a self-loop at
  every vertex that occurs in a triangle, degenerate or not, since each vertex receives
  the whole vertex set of its triangles.
\<close>

theorem adjacency_graphs:
  "(b \<in> set (adj (make_surface_graph tris) a) \<longrightarrow> a \<in> set (adj (make_surface_graph tris) b))
   \<and> (a \<in> set (adj (make_surface_graph tris) a)
        \<longrightarrow> (\<exists>t \<in> set tris. 2 \<le> count_list (tri_list t) a))
   \<and> (b \<in> set (adj (faces tris) a) \<longrightarrow> a \<in> set (adj (faces tris) b))
   \<and> (a \<in> set (adj (faces tris) a) \<longleftrightarrow> (\<exists>t \<in> set tris. a \<in> set (tri_list t)))"
  apply (intro conjI)
  subgoal by (auto simp: adj_make_surface_graph)
  subgoal by (auto simp: adj_make_surface_graph dest: self_edge_repeats)
  subgoal by (auto simp: adj_faces)
  subgoal by (force simp: adj_faces)
  done

lemma adj_two_tris:
  "adj (make_surface_graph two_tris) 0 = [1, 2]"
  "adj (make_surface_graph two_tris) 3 = [3, 4]"
  "adj (faces two_tris) 0 = [2, 1, 0]"
  "adj (faces two_tris) 3 = [4, 3]"
  by code_simp+

theorem adjacency_graphs_witness:
  "1 \<in> set (adj (make_surface_graph two_tris) 0) \<and> 0 \<in> set (adj (make_surface_graph two_tris) 1)
   \<and> 3 \<in> set (adj (make_surface_graph two_tris) 3) \<and> 2 \<le> count_list (tri_list (3, 3, 4)) 3
   \<and> 1 \<in> set (adj (faces two_tris) 0) \<and> 0 \<in> set (adj (faces two_tris) 1)
   \<and> 3 \<in> set (adj (faces two_tris) 3) \<and> 3 \<in> set (tri_list (3, 3, 4))"
  using adjacency_graphs[of 1 two_tris 0] adjacency_graphs[of 3 two_tris 3]
  by (simp add: adj_two_tris)

text \<open>
  In the neighbour sets of the curvature smoother vertex 0 of the single triangle
  \<open>(0, 1, 2)\<close> is its own neighbour although no vertex index is repeated.
\<close>

theorem faces_self_loop_counterexample:
  "0 \<in> set (adj (faces one_triangle) 0) \<and> one_triangle = [(0, 1, 2)]
   \<and> distinct (tri_list (0, 1, 2))"
  by code_simp

section \<open>Properties of the ROI voxel rasterizer\<close>

text \<open>
  C4. The boundary of the hemisphere partition is \<open>nL\<close>, the number of distinct vertex
  indices in the triangles of the left flat mesh, not the number of left-hemisphere
  vertices. In \<open>medial_inputs\<close> the left hemisphere has four vertices and the voxel lies
  on its vertex 3, yet the voxel is put into the right mask.
\<close>

theorem hemisphere_boundary_medial_wall:
  "length (L_pts medial_inputs) = 4 \<and> voxIdx medial_inputs = [3]
   \<and> count_unique (L_polys medial_inputs) = 3
   \<and> Lmask medial_inputs = [False] \<and> Rmask medial_inputs = [True]"
  by code_simp

text \<open>
  C2. In \<open>overlap_inputs\<close> the only voxel is a candidate of both ROIs in the left
  hemisphere. Under \<^verbatim>\<open>'cut'\<close> it is not set to 0: it is given to the second ROI, value
  \<open>- 2\<close>, whichever way numpy treats the boolean index.
\<close>

theorem cut_keeps_overlapping_voxel:
  "sequence_results (map (roi_columns overlap_inputs 2 1 6 6) [''A'', ''B''])
     = Inr [([True], [False]), ([True], [False])]
   \<and> get_roi_masks True overlap_inputs (RoiList [''A'', ''B'']) 2 ''cut''
     = Inr \<lparr>mask_data = [- 2], mask_shape = [1, 1, 1], roiIdx = [(''A'', 1), (''B'', 2)]\<rparr>
   \<and> get_roi_masks False overlap_inputs (RoiList [''A'', ''B'']) 2 ''cut''
     = Inr \<lparr>mask_data = [- 2], mask_shape = [1, 1, 1], roiIdx = [(''A'', 1), (''B'', 2)]\<rparr>"
  by code_simp

text \<open>
  C6 (amended). With an overlap policy other than \<^verbatim>\<open>'cut'\<close> no error is raised for the
  policy. The call fails exactly when building the candidate masks fails, as it also
  does under \<^verbatim>\<open>'cut'\<close>; otherwise it returns the flat all-zero mask with one entry for
  each voxel and an empty dictionary.
\<close>

theorem get_roi_masks_other_policy:
  assumes "overlapOpt \<noteq> ''cut''"
  shows "get_roi_masks strict inp roiList Dst overlapOpt =
           (case get_roi_masks False inp roiList Dst ''cut'' of
              Inl e \<Rightarrow> Inl e
            | Inr r \<Rightarrow>
                Inr \<lparr>mask_data = replicate (prod_list (grid_shape (ref_shape inp))) 0,
                     mask_shape = [prod_list (grid_shape (ref_shape inp))],
                     roiIdx = []\<rparr>)"
  using assms
  by (simp add: get_roi_masks_def cut_assign_def Let_def split: sum.splits prod.splits)

theorem get_roi_masks_other_policy_witness:
  "''split'' \<noteq> ''cut''
   \<and> get_roi_masks True overlap_inputs (RoiList [''A'', ''B'']) 2 ''split''
     = Inr \<lparr>mask_data = replicate (prod_list (grid_shape (ref_shape overlap_inputs))) 0,
            mask_shape = [prod_list (grid_shape (ref_shape overlap_inputs))],
            roiIdx = []\<rparr>"
proof -
  have h: "''split'' \<noteq> ''cut''" by simp
  have c: "get_roi_masks False overlap_inputs (RoiList [''A'', ''B'']) 2 ''cut''
     = Inr \<lparr>mask_data = [- 2], mask_shape = [1, 1, 1], roiIdx = [(''A'', 1), (''B'', 2)]\<rparr>"
    by code_simp
  show ?thesis
    using get_roi_masks_other_policy[OF h, of True overlap_inputs "RoiList [''A'', ''B'']" 2] h
    by (simp add: c)
qed

text \<open>
  With the policy \<^verbatim>\<open>'split'\<close> the call returns a result: the overlap resolution and the
  assignment are skipped and the mask is all zero.
\<close>

theorem split_policy_counterexample:
  "get_roi_masks True overlap_inputs (RoiList [''A'', ''B'']) 2 ''split''
     = Inr \<lparr>mask_data = [0], mask_shape = [1], roiIdx = []\<rparr>
   \<and> get_roi_masks False overlap_inputs (RoiList [''A'', ''B'']) 2 ''split''
     = Inr \<lparr>mask_data = [0], mask_shape = [1], roiIdx = []\<rparr>"
  by code_simp

section \<open>Properties of the distortion analyzer\<close>

lemma list_update_Cons_numeral: "(x # xs)[numeral k := y] = x # xs[pred_numeral k := y]"
  by (simp add: numeral_eq_Suc)

lemma square_areas: "triareas square_tris square_pts = Inr [1 / 2, 1 / 2]"
  by (simp add: triareas_def square_tris_def square_pts_def ravel_def)

lemma square_bincount: "bincount (ravel square_tris) = [2, 1, 2, 1]"
  by code_simp

lemma square_iadd:
  "fancy_iadd (replicate (length square_pts) (Fin 0)) (map col0 square_tris) [Fin 1, Fin 1]
     = Inr [Fin 1, Fin 0, Fin 0, Fin 0]"
  "fancy_iadd [Fin 1, Fin 0, Fin 0, Fin 0] (map col1 square_tris) [Fin 1, Fin 1]
     = Inr [Fin 1, Fin 1, Fin 1, Fin 0]"
  "fancy_iadd [Fin 1, Fin 1, Fin 1, Fin 0] (map col2 square_tris) [Fin 1, Fin 1]
     = Inr [Fin 1, Fin 1, Fin 2, Fin 1]"
  by (simp_all add: fancy_iadd_def square_tris_def square_pts_def list_update_Cons_numeral)

lemma square_div: "div_counts [Fin 1, Fin 1, Fin 2, Fin 1] (bincount (ravel square_tris))
    = Inr [Fin (1 / 2), Fin 1, Fin 1, Fin 1]"
  unfolding square_bincount by (simp add: div_counts_def)

lemma square_distortion: "get_flatmap_distortion_areal square_pts square_pts square_tris = Inr [Fin (ln (1 / 2)), Fin 0, Fin 0, Fin 0]"
  by (simp add: get_flatmap_distortion_areal_def square_areas square_iadd square_div zero_to_one_def)























text \<open>
  C9. The unit square with the same positions in the flat and the fiducial mesh is an
  isometric mapping without zero-area triangles (both triangles have area 1/2). Vertex 0
  is the first corner of both triangles, so only one ratio is stored for it while the
  count is 2: areal mode returns \<open>ln (1/2)\<close> at vertex 0, not 0.
\<close>

theorem isometric_square_distortion:
  "triareas square_tris square_pts = Inr [1 / 2, 1 / 2]
   \<and> get_flatmap_distortion_areal square_pts square_pts square_tris
       = Inr [Fin (ln (1 / 2)), Fin 0, Fin 0, Fin 0]
   \<and> Fin (ln (1 / 2)) \<noteq> Fin 0"
  by (simp add: square_areas square_distortion)

section \<open>Properties of the geodesic disc sampler\<close>

lemma chain_node: "map_of (make_surface_graph chain_tris) 0 \<noteq> None"
  by code_simp

lemma triangle_bfs:
  "single_source_shortest_path (make_surface_graph one_triangle) 0 20
     = Inr [(0, [0]), (1, [0, 1]), (2, [0, 2])]"
  "single_source_shortest_path (make_surface_graph one_triangle) 2 20
     = Inr [(2, [2]), (1, [2, 1]), (0, [2, 0])]"
  by code_simp+

lemma scrap_check_False:
  "scrap_check ps verts sp cs = Inr False \<Longrightarrow> cv \<in> set cs \<Longrightarrow> map_of ps cv = Some p
     \<Longrightarrow> \<exists>d. get_path_len_mm p verts = Inr d \<and> sp \<le> d"
proof (induction cs)
  case Nil
  then show ?case by simp
next
  case (Cons c cs)
  show ?case
  proof (cases "cv = c")
    case True
    with Cons.prems(1,3) show ?thesis
      by (auto split: sum.splits if_splits)
  next
    case False
    with Cons.prems have "cv \<in> set cs" by simp
    moreover from Cons.prems(1) have "scrap_check ps verts sp cs = Inr False"
      by (auto split: option.splits sum.splits if_splits)
    ultimately show ?thesis using Cons.IH Cons.prems(3) by blast
  qed
qed

lemma tissot_step_separated:
  assumes "tissot_step G verts radius spacing c st = Inr st'"
    and "separated G verts spacing (centers st)"
  shows "separated G verts spacing (centers st')"
proof -
  from assms(1) obtain ps scrap where
    ps: "single_source_shortest_path G c (half_plus_20 spacing) = Inr ps"
    and sc: "scrap_check ps verts (num_val spacing) (centers st) = Inr scrap"
    by (auto simp: tissot_step_def split: sum.splits)
  show ?thesis
  proof (cases scrap)
    case True
    with assms(1) ps sc have "centers st' = centers st"
      by (auto simp: tissot_step_def)
    with assms(2) show ?thesis by simp
  next
    case False
    with assms(1) ps sc have cs': "centers st' = centers st @ [c]"
      by (auto simp: tissot_step_def split: sum.splits)
    show ?thesis
      unfolding separated_def cs'
    proof (intro allI impI)
      fix j i
      assume j: "j < length (centers st @ [c])" and i: "i < j"
      show "\<exists>ps. single_source_shortest_path G ((centers st @ [c]) ! j) (half_plus_20 spacing)
                   = Inr ps
              \<and> (\<forall>p. map_of ps ((centers st @ [c]) ! i) = Some p
                    \<longrightarrow> (\<exists>d. get_path_len_mm p verts = Inr d \<and> num_val spacing \<le> d))"
      proof (cases "j < length (centers st)")
        case True
        with i assms(2) show ?thesis
          by (simp add: separated_def nth_append)
      next
        case False
        with j have jj: "j = length (centers st)" by simp
        with i have "centers st ! i \<in> set (centers st)" by simp
        moreover from sc \<open>\<not> scrap\<close>
        have "scrap_check ps verts (num_val spacing) (centers st) = Inr False" by simp
        ultimately have "\<forall>p. map_of ps (centers st ! i) = Some p
                \<longrightarrow> (\<exists>d. get_path_len_mm p verts = Inr d \<and> num_val spacing \<le> d)"
          using scrap_check_False by blast
        with ps jj i show ?thesis by (simp add: nth_append)
      qed
    qed
  qed
qed

lemma tissot_loop_separated:
  "tissot_loop G verts radius spacing maxfails picks st = Inr st'
     \<Longrightarrow> separated G verts spacing (centers st)
     \<Longrightarrow> separated G verts spacing (centers st')"
proof (induction picks arbitrary: st)
  case Nil
  then show ?case by simp
next
  case (Cons c picks)
  show ?case
  proof (cases "int (numfails st) < maxfails")
    case True
    with Cons.prems(1) obtain st1 where
      s1: "tissot_step G verts radius spacing c st = Inr st1"
      and l1: "tissot_loop G verts radius spacing maxfails picks st1 = Inr st'"
      by (auto split: if_splits sum.splits)
    from tissot_step_separated[OF s1 Cons.prems(2)] Cons.IH[OF l1] show ?thesis by simp
  next
    case False
    with Cons.prems show ?thesis by simp
  qed
qed

lemma hemi_centers_measured_apart:
  assumes "get_tissots_hemi fidvert fidtri radius spacing maxfails picks = Inr st"
    and "j < length (centers st)" and "i < j"
  shows "\<exists>ps. single_source_shortest_path (make_surface_graph fidtri) (centers st ! j)
                 (half_plus_20 spacing) = Inr ps
           \<and> (\<forall>p. map_of ps (centers st ! i) = Some p
                 \<longrightarrow> (\<exists>d. get_path_len_mm p fidvert = Inr d \<and> num_val spacing \<le> d))"
proof -
  have "separated (make_surface_graph fidtri) fidvert spacing
          (centers \<lparr>centers = [], numfails = 0,
                    tissot_array = replicate (length fidvert) 0, cnum = 0\<rparr>)"
    by (simp add: separated_def)
  with assms(1) have "separated (make_surface_graph fidtri) fidvert spacing (centers st)"
    unfolding get_tissots_hemi_def by (rule tissot_loop_separated)
  with assms(2,3) show ?thesis by (simp add: separated_def)
qed

text \<open>
  C5 (amended). For every hemisphere, at every point of its sampling loop and in its
  final centre list, for every accepted centre and every centre accepted before it: the
  hop-count breadth-first search from the later centre with cutoff \<open>spacing/2 + 20\<close>
  hops returns, and if it reaches the earlier centre then the world length of the path
  it found (the sum of the edge lengths along a path with the fewest hops) is at least
  \<open>spacing\<close>. Nothing is checked for an earlier centre farther than the cutoff in hops.
\<close>

theorem accepted_centers_measured_apart:
  assumes "get_tissots_indicatrix hems radius spacing maxfails = Inr sts"
    and "h < length hems" and "hems ! h = (fidvert, fidtri, picks)"
    and "j < length (centers (sts ! h))" and "i < j"
  shows "\<exists>ps. single_source_shortest_path (make_surface_graph fidtri) (centers (sts ! h) ! j)
                 (half_plus_20 spacing) = Inr ps
           \<and> (\<forall>p. map_of ps (centers (sts ! h) ! i) = Some p
                 \<longrightarrow> (\<exists>d. get_path_len_mm p fidvert = Inr d \<and> num_val spacing \<le> d))"
proof -
  let ?f = "\<lambda>(fidvert, fidtri, picks).
              get_tissots_hemi fidvert fidtri radius spacing maxfails picks"
  from assms(1) have "sequence_results (map ?f hems) = Inr sts"
    by (simp add: get_tissots_indicatrix_def)
  from sequence_results_nth[OF this] assms(2) have "?f (hems ! h) = Inr (sts ! h)"
    by auto
  with assms(3) have
    "get_tissots_hemi fidvert fidtri radius spacing maxfails picks = Inr (sts ! h)"
    by simp
  from hemi_centers_measured_apart[OF this assms(4,5)] show ?thesis .
qed

lemma paint_radius_0:
  "c < length arr \<Longrightarrow> paint G verts (PyInt 0) c arr = Inr (arr[c := arr ! c + 1 / 2])"
  by (simp add: paint_def single_source_shortest_path_def array_iadd_def distfun_def)

lemma tissot_step_accept:
  "single_source_shortest_path G c (half_plus_20 spacing) = Inr ps
   \<Longrightarrow> scrap_check ps verts (num_val spacing) (centers st) = Inr False
   \<Longrightarrow> paint G verts radius c (tissot_array st) = Inr arr
   \<Longrightarrow> tissot_step G verts radius spacing c st
        = Inr \<lparr>centers = centers st @ [c], numfails = 0, tissot_array = arr,
               cnum = cnum st + 1\<rparr>"
  by (simp add: tissot_step_def)


lemma triangle_hop: "get_path_len_mm [2, 0] corner_pts = Inr 1"
  by (simp add: get_path_len_mm_def corner_pts_def)

lemma triangle_run:
  "get_tissots_hemi corner_pts one_triangle (PyInt 0) (PyInt 1) 1 [0, 2]
     = Inr \<lparr>centers = [0, 2], numfails = 0, tissot_array = [1 / 2, 0, 1 / 2], cnum = 2\<rparr>"
proof -
  let ?G = "make_surface_graph one_triangle"
  let ?st0 = "\<lparr>centers = [], numfails = 0, tissot_array = replicate (length corner_pts) 0,
               cnum = 0\<rparr>"
  let ?st1 = "\<lparr>centers = [0], numfails = 0, tissot_array = [1 / 2, 0, 0], cnum = 1\<rparr>"
  let ?st2 = "\<lparr>centers = [0, 2], numfails = 0, tissot_array = [1 / 2, 0, 1 / 2], cnum = 2\<rparr>"
  have h: "half_plus_20 (PyInt 1) = 20" by simp
  have p0: "paint ?G corner_pts (PyInt 0) 0 (tissot_array ?st0) = Inr [1 / 2, 0, 0]"
    by (subst paint_radius_0) (simp_all add: corner_pts_def)
  have s1: "tissot_step ?G corner_pts (PyInt 0) (PyInt 1) 0 ?st0 = Inr ?st1"
    by (subst tissot_step_accept[where ps = "[(0, [0]), (1, [0, 1]), (2, [0, 2])]"
          and arr = "[1 / 2, 0, 0]"])
       (simp_all only: h triangle_bfs p0, simp_all)
  have p1: "paint ?G corner_pts (PyInt 0) 2 (tissot_array ?st1) = Inr [1 / 2, 0, 1 / 2]"
    by (subst paint_radius_0) simp_all
  have sc: "scrap_check [(2, [2]), (1, [2, 1]), (0, [2, 0])] corner_pts (num_val (PyInt 1))
              (centers ?st1) = Inr False"
    by (simp add: triangle_hop)
  have s2: "tissot_step ?G corner_pts (PyInt 0) (PyInt 1) 2 ?st1 = Inr ?st2"
    by (subst tissot_step_accept[where ps = "[(2, [2]), (1, [2, 1]), (0, [2, 0])]"
          and arr = "[1 / 2, 0, 1 / 2]"])
       (simp_all only: h triangle_bfs p1 sc, simp_all)
  have l: "corner_pts \<noteq> []" by (simp add: corner_pts_def)
  show ?thesis
    unfolding get_tissots_hemi_def
    by (simp add: s1 s2 l del: One_nat_def)
qed

theorem accepted_centers_measured_apart_witness:
  "get_tissots_indicatrix [(corner_pts, one_triangle, [0, 2])] (PyInt 0) (PyInt 1) 1
     = Inr [\<lparr>centers = [0, 2], numfails = 0, tissot_array = [1 / 2, 0, 1 / 2], cnum = 2\<rparr>]
   \<and> (1::nat) < length [0, 2 :: nat] \<and> (0::nat) < 1
   \<and> single_source_shortest_path (make_surface_graph one_triangle) 2 (half_plus_20 (PyInt 1))
       = Inr [(2, [2]), (1, [2, 1]), (0, [2, 0])]
   \<and> get_path_len_mm [2, 0] corner_pts = Inr 1 \<and> num_val (PyInt 1) \<le> 1"
proof -
  let ?st2 = "\<lparr>centers = [0, 2], numfails = 0, tissot_array = [1 / 2, 0, 1 / 2 :: real],
               cnum = 2\<rparr>"
  have run: "get_tissots_indicatrix [(corner_pts, one_triangle, [0, 2])] (PyInt 0) (PyInt 1) 1
               = Inr [?st2]"
    by (simp add: get_tissots_indicatrix_def triangle_run)
  have h: "0 < length [(corner_pts, one_triangle, [0, 2 :: nat])]" by simp
  have hh: "[(corner_pts, one_triangle, [0, 2 :: nat])] ! 0 = (corner_pts, one_triangle, [0, 2])"
    by simp
  have j: "1 < length (centers ([?st2] ! 0))" by simp
  have i: "(0::nat) < 1" by simp
  from accepted_centers_measured_apart[OF run h hh j i]
  have "\<exists>d. get_path_len_mm [2, 0] corner_pts = Inr d \<and> num_val (PyInt 1) \<le> d"
    by (simp add: triangle_bfs)
  then show ?thesis
    by (simp add: run triangle_bfs triangle_hop)
qed


lemma bfs_far:
  "(case single_source_shortest_path (make_surface_graph chain_tris) 42 20 of
      Inl e \<Rightarrow> Some [] | Inr ps \<Rightarrow> map_of ps 0) = None"
  by code_simp

lemma bfs_21:
  "(case single_source_shortest_path (make_surface_graph chain_tris) 42 21 of
      Inl e \<Rightarrow> None | Inr ps \<Rightarrow> map_of ps 0) = Some chain_walk"
  by code_simp

lemma sqrt_1024: "sqrt 1024 = 32"
  by (rule real_sqrt_unique) simp_all

lemma chain_walk_eq:
  "chain_walk = [42, 40, 38, 36, 34, 32, 30, 28, 26, 24, 22, 20, 18, 16, 14, 12, 10, 8, 6, 4, 2, 0]"
  by code_simp

lemma chain_pts_nth:
  "k < 43 \<Longrightarrow> chain_pts ! k = (real k / 64, if even k then 0 else 1 / 64, 0)"
  by (simp add: chain_pts_def)

lemma length_chain_pts: "length chain_pts = 43"
  by (simp add: chain_pts_def)

lemma chain_walk_len: "get_path_len_mm chain_walk chain_pts = Inr (21 / 32)"
  by (simp add: get_path_len_mm_def chain_walk_eq length_chain_pts chain_pts_nth
      real_sqrt_divide sqrt_1024)

lemma chain_run:
  "\<exists>st. get_tissots_hemi chain_pts chain_tris (PyInt 0) (PyInt 1) 1 [0, 42] = Inr st
        \<and> centers st = [0, 42]"
proof -
  let ?G = "make_surface_graph chain_tris"
  let ?st0 = "\<lparr>centers = [], numfails = 0, tissot_array = replicate (length chain_pts) 0,
               cnum = 0\<rparr>"
  have h: "half_plus_20 (PyInt 1) = 20" by simp
  have len: "length chain_pts = 43" by (simp add: chain_pts_def)
  have ne: "chain_pts \<noteq> []" using len by auto
  obtain ps0 where ps0: "single_source_shortest_path ?G 0 (half_plus_20 (PyInt 1)) = Inr ps0"
    using chain_node by (simp add: single_source_shortest_path_def)
  obtain arr1 where p0: "paint ?G chain_pts (PyInt 0) 0 (tissot_array ?st0) = Inr arr1"
    and l1: "length arr1 = 43"
    by (simp add: paint_radius_0 len)
  let ?st1 = "\<lparr>centers = [0], numfails = 0, tissot_array = arr1, cnum = 1\<rparr>"
  have s1: "tissot_step ?G chain_pts (PyInt 0) (PyInt 1) 0 ?st0 = Inr ?st1"
    using tissot_step_accept[OF ps0 _ p0] by simp
  obtain ps where ps: "single_source_shortest_path ?G 42 (half_plus_20 (PyInt 1)) = Inr ps"
    and far: "map_of ps 0 = None"
    using bfs_far unfolding h by (auto split: sum.splits)
  obtain arr2 where p1: "paint ?G chain_pts (PyInt 0) 42 (tissot_array ?st1) = Inr arr2"
    by (simp add: paint_radius_0 l1)
  have sc: "scrap_check ps chain_pts (num_val (PyInt 1)) (centers ?st1) = Inr False"
    by (simp add: far)
  let ?st2 = "\<lparr>centers = [0, 42], numfails = 0, tissot_array = arr2, cnum = 2\<rparr>"
  have s2: "tissot_step ?G chain_pts (PyInt 0) (PyInt 1) 42 ?st1 = Inr ?st2"
    using tissot_step_accept[OF ps sc p1] by simp
  have "get_tissots_hemi chain_pts chain_tris (PyInt 0) (PyInt 1) 1 [0, 42] = Inr ?st2"
    unfolding get_tissots_hemi_def
    by (simp add: s1 s2 ne del: One_nat_def)
  then show ?thesis by simp
qed

text \<open>
  On the chain with \<open>spacing = 1\<close> the search is cut off after 20 hops. Vertices 0 and 42
  are 21 hops apart, so both are accepted, although the only shortest path between them,
  \<open>chain_walk\<close>, is 21/32 long, less than \<open>spacing\<close>.
\<close>

theorem centers_beyond_cutoff_counterexample:
  "map_sum id centers (get_tissots_hemi chain_pts chain_tris (PyInt 0) (PyInt 1) 1 [0, 42])
     = Inr [0, 42]
   \<and> (case single_source_shortest_path (make_surface_graph chain_tris) 42 21 of
         Inl e \<Rightarrow> None | Inr ps \<Rightarrow> map_of ps 0) = Some chain_walk
   \<and> get_path_len_mm chain_walk chain_pts = Inr (21 / 32)
   \<and> 21 / 32 < num_val (PyInt 1)"
  using chain_run bfs_21 chain_walk_len by auto

end
